theory Spec2Isabelle
  imports Main
begin

section \<open>The dashboard layout component\<close>

text \<open>
  The only executable artifact of the repository is the function component of
  \<^verbatim>\<open>app/(dashboard)/layout.tsx\<close>:
  \<^verbatim>\<open>
  const DashBoardLayout = ( {children} ) => {
      return <div>
          <h1>Dashboard</h1>
          <div>{children}</div>
      </div>
  }
  \<close>
  The framework calls a component with its props object and receives an element
  tree. The theory embeds the values a component can be given as children, the
  props object, the element tree the JSX expression builds, and the display of
  such a tree as a document tree.
\<close>

subsection \<open>Renderable values and element trees\<close>

text \<open>
  A renderable value is nothing at all (\<open>undefined\<close>, \<open>null\<close>, a boolean),
  a text, an element with a tag, attributes and child expressions in source order,
  or a sequence of renderable values. A JSX element \<^verbatim>\<open><t>c1 ... cn</t>\<close>
  is the element of tag \<open>t\<close> with no attributes and the children \<open>c1 ... cn\<close>;
  literal text inside JSX is a text child, and \<^verbatim>\<open>{e}\<close> is the value of \<open>e\<close>
  as it is. A number given as children is displayed as its decimal text and is
  represented by that text; the component never inspects the value it is given.
\<close>

datatype node =
    Undefined
  | Null
  | Boolean bool
  | Text string
  | Element string "(string \<times> string) list" "node list"
  | Array "node list"

text \<open>
  The props object is a dictionary from field names to values. Reading a field
  that the object does not have gives \<open>undefined\<close>, which is what the
  destructuring pattern \<^verbatim>\<open>{children}\<close> of the parameter list does.
\<close>

type_synonym props = "string \<rightharpoonup> node"

definition get_children :: "props \<Rightarrow> node" where
  "get_children p = (case p ''children'' of None \<Rightarrow> Undefined | Some v \<Rightarrow> v)"

definition DashBoardLayout :: "props \<Rightarrow> node" where
  "DashBoardLayout p =
     (let children = get_children p in
      Element ''div'' []
        [Element ''h1'' [] [Text ''Dashboard''],
         Element ''div'' [] [children]])"

text \<open>
  The call itself. The parameter list is the destructuring pattern
  \<^verbatim>\<open>{children}\<close>, and binding such a pattern first requires its argument
  to be coercible to an object: on \<open>undefined\<close> (which is also what a call
  without argument passes) and on \<open>null\<close> the binding throws a \<open>TypeError\<close>
  before the body runs. On an object of data fields the field is read and the
  body runs. The framework always passes such an object, built from the
  attributes and the children of the JSX element that uses the component.
\<close>

datatype error = TypeError

datatype argument =
    ArgUndefined
  | ArgNull
  | ArgObject props

definition DashBoardLayout_call :: "argument \<Rightarrow> error + node" where
  "DashBoardLayout_call a =
     (case a of
        ArgUndefined \<Rightarrow> Inl TypeError
      | ArgNull \<Rightarrow> Inl TypeError
      | ArgObject p \<Rightarrow> Inr (DashBoardLayout p))"

subsection \<open>Inspecting an element tree\<close>

fun element_tag :: "node \<Rightarrow> string option" where
  "element_tag (Element t a cs) = Some t"
| "element_tag _ = None"

fun element_children :: "node \<Rightarrow> node list option" where
  "element_children (Element t a cs) = Some cs"
| "element_children _ = None"

text \<open>
  The content region of a layout is the second child of the outer container;
  \<open>content_region\<close> gives its child expressions.
\<close>

fun content_region :: "node \<Rightarrow> node list option" where
  "content_region (Element t a [h, c]) = element_children c"
| "content_region _ = None"

text \<open>The heading of a layout is the first child of the outer container.\<close>

fun heading_of :: "node \<Rightarrow> node option" where
  "heading_of (Element t a (h # cs)) = Some h"
| "heading_of _ = None"


subsection \<open>The display layer\<close>

text \<open>
  What the display layer of the framework makes of a renderable value:
  \<open>undefined\<close>, \<open>null\<close>, booleans and the empty text display nothing, a text
  displays as a text node, a sequence displays its members in order, and an
  element displays as one element node around the display of its children.
\<close>

datatype dom =
    DText string
  | DElem string "(string \<times> string) list" "dom list"

fun render :: "node \<Rightarrow> dom list" where
  "render Undefined = []"
| "render Null = []"
| "render (Boolean b) = []"
| "render (Text s) = (if s = [] then [] else [DText s])"
| "render (Element t a cs) = [DElem t a (concat (map render cs))]"
| "render (Array xs) = concat (map render xs)"

text \<open>The text of a document tree, in document order.\<close>

fun text_content :: "dom \<Rightarrow> string" where
  "text_content (DText s) = s"
| "text_content (DElem t a ds) = concat (map text_content ds)"

definition text_of :: "dom list \<Rightarrow> string" where
  "text_of ds = concat (map text_content ds)"

text \<open>A value is empty when it displays nothing whatever it is nested in.\<close>

fun empty_node :: "node \<Rightarrow> bool" where
  "empty_node Undefined = True"
| "empty_node Null = True"
| "empty_node (Boolean b) = True"
| "empty_node (Text s) = (s = [])"
| "empty_node (Element t a cs) = False"
| "empty_node (Array xs) = list_all empty_node xs"

fun is_element :: "node \<Rightarrow> bool" where
  "is_element (Element t a cs) = True"
| "is_element _ = False"

section \<open>Properties of the layout\<close>

lemma get_children_upd [simp]: "get_children (p(''children'' \<mapsto> v)) = v"
  by (simp add: get_children_def)

lemma get_children_absent [simp]: "get_children (p(''children'' := None)) = Undefined"
  by (simp add: get_children_def)

lemma get_children_other [simp]:
  "k \<noteq> ''children'' \<Longrightarrow> get_children (p(k := x)) = get_children p"
  by (simp add: get_children_def)

lemma empty_node_render: "empty_node v \<Longrightarrow> render v = []"
  by (induction v rule: empty_node.induct) (auto simp: list_all_iff)

lemma is_element_render: "is_element v \<Longrightarrow> \<exists>d. render v = [d]"
  by (cases v) simp_all

lemma render_elements:
  "list_all is_element xs \<Longrightarrow>
     length (concat (map render xs)) = length xs
     \<and> (\<forall>i<length xs. render (xs ! i) = [concat (map render xs) ! i])"
proof (induction xs)
  case Nil
  then show ?case by simp
next
  case (Cons x xs)
  then obtain d where d: "render x = [d]"
    using is_element_render by auto
  from Cons have IH: "length (concat (map render xs)) = length xs"
    "\<forall>i<length xs. render (xs ! i) = [concat (map render xs) ! i]"
    by simp_all
  show ?case
  proof (intro conjI allI impI)
    show "length (concat (map render (x # xs))) = length (x # xs)"
      using d IH(1) by simp
  next
    fix i assume "i < length (x # xs)"
    then show "render ((x # xs) ! i) = [concat (map render (x # xs)) ! i]"
      using d IH(2) by (cases i) simp_all
  qed
qed

lemma DashBoardLayout_tree:
  "DashBoardLayout p =
     Element ''div'' []
       [Element ''h1'' [] [Text ''Dashboard''], Element ''div'' [] [get_children p]]"
  by (simp add: DashBoardLayout_def)

lemma DashBoardLayout_display:
  "render (DashBoardLayout p) =
     [DElem ''div'' []
        [DElem ''h1'' [] [DText ''Dashboard''],
         DElem ''div'' [] (render (get_children p))]]"
  by (simp add: DashBoardLayout_tree)

subsection \<open>The heading, then the children\<close>

text \<open>
  Claim C1. For every children value \<open>V\<close> (the empty ones included) and
  whatever else the props hold, the layout returns the outer container holding the
  heading "Dashboard" and then the container of \<open>V\<close> itself; its display is the
  heading's display followed by the display of \<open>V\<close>, and the text of the whole
  is "Dashboard" followed by the text of \<open>V\<close>.
\<close>

theorem DashBoardLayout_heading_then_children:
  "DashBoardLayout (p(''children'' \<mapsto> V)) =
     Element ''div'' [] [Element ''h1'' [] [Text ''Dashboard''], Element ''div'' [] [V]]
   \<and> render (DashBoardLayout (p(''children'' \<mapsto> V))) =
     [DElem ''div'' [] [DElem ''h1'' [] [DText ''Dashboard''], DElem ''div'' [] (render V)]]
   \<and> text_of (render (DashBoardLayout (p(''children'' \<mapsto> V)))) =
     ''Dashboard'' @ text_of (render V)"
  by (simp add: DashBoardLayout_tree text_of_def)

subsection \<open>The children are kept as they are\<close>


subsection \<open>When the call returns\<close>


lemma DashBoardLayout_call_null_throws:
  "DashBoardLayout_call ArgNull = Inl TypeError"
  by (simp add: DashBoardLayout_call_def)


subsection \<open>Two nested containers\<close>


subsection \<open>Scenarios\<close>

text \<open>
  Claim C5. With the text "Hello" as children, the display is the outer container
  with the heading "Dashboard" and then the content region holding the text
  "Hello"; the text of the whole reads "Dashboard" and then "Hello".
\<close>

theorem DashBoardLayout_hello:
  "render (DashBoardLayout (p(''children'' \<mapsto> Text ''Hello''))) =
     [DElem ''div'' []
        [DElem ''h1'' [] [DText ''Dashboard''], DElem ''div'' [] [DText ''Hello'']]]
   \<and> text_of (render (DashBoardLayout (p(''children'' \<mapsto> Text ''Hello'')))) =
     ''Dashboard'' @ ''Hello''"
  by (simp add: DashBoardLayout_tree text_of_def)

text \<open>
  Claim C6. When the props have no \<open>children\<close> field, or the children value is
  empty, the display is the outer container with the heading "Dashboard" and a
  content region without any node, and the only text is "Dashboard".
\<close>

theorem DashBoardLayout_empty_children:
  assumes "p ''children'' = None \<or> empty_node (get_children p)"
  shows "render (DashBoardLayout p) =
           [DElem ''div'' [] [DElem ''h1'' [] [DText ''Dashboard''], DElem ''div'' [] []]]
         \<and> text_of (render (DashBoardLayout p)) = ''Dashboard''"
proof -
  from assms have "empty_node (get_children p)"
    by (auto simp: get_children_def)
  then have "render (get_children p) = []"
    by (rule empty_node_render)
  then show ?thesis
    by (simp add: DashBoardLayout_display text_of_def)
qed

theorem DashBoardLayout_empty_children_witness:
  "render (DashBoardLayout Map.empty) =
     [DElem ''div'' [] [DElem ''h1'' [] [DText ''Dashboard''], DElem ''div'' [] []]]
   \<and> text_of (render (DashBoardLayout Map.empty)) = ''Dashboard''
   \<and> render (DashBoardLayout [''children'' \<mapsto> Array [Null, Text [], Array []]]) =
     [DElem ''div'' [] [DElem ''h1'' [] [DText ''Dashboard''], DElem ''div'' [] []]]"
proof -
  have absent: "(Map.empty :: props) ''children'' = None
      \<or> empty_node (get_children Map.empty)"
    by simp
  have empty: "[''children'' \<mapsto> Array [Null, Text [], Array []]] ''children'' = None
      \<or> empty_node (get_children [''children'' \<mapsto> Array [Null, Text [], Array []]])"
    by simp
  from DashBoardLayout_empty_children [OF absent] DashBoardLayout_empty_children [OF empty]
  show ?thesis by blast
qed

text \<open>
  Claim C7. With a sequence of siblings as children, the content region holds
  that sequence as it is, and its display is the displays of the siblings one
  after the other in the order of the sequence. When the siblings are elements,
  the content region displays one node for each sibling, the node at each
  position being the display of the sibling at that position.
\<close>

theorem DashBoardLayout_siblings:
  "content_region (DashBoardLayout (p(''children'' \<mapsto> Array xs))) = Some [Array xs]
   \<and> render (DashBoardLayout (p(''children'' \<mapsto> Array xs))) =
       [DElem ''div'' []
          [DElem ''h1'' [] [DText ''Dashboard''],
           DElem ''div'' [] (concat (map render xs))]]
   \<and> (list_all is_element xs \<longrightarrow>
        (\<exists>ds. render (DashBoardLayout (p(''children'' \<mapsto> Array xs))) =
                [DElem ''div'' [] [DElem ''h1'' [] [DText ''Dashboard''], DElem ''div'' [] ds]]
              \<and> length ds = length xs
              \<and> (\<forall>i<length xs. render (xs ! i) = [ds ! i])))"
proof (intro conjI impI)
  show "content_region (DashBoardLayout (p(''children'' \<mapsto> Array xs))) = Some [Array xs]"
    by (simp add: DashBoardLayout_tree)
next
  show "render (DashBoardLayout (p(''children'' \<mapsto> Array xs))) =
       [DElem ''div'' []
          [DElem ''h1'' [] [DText ''Dashboard''],
           DElem ''div'' [] (concat (map render xs))]]"
    by (simp add: DashBoardLayout_display)
next
  assume "list_all is_element xs"
  then have "length (concat (map render xs)) = length xs
     \<and> (\<forall>i<length xs. render (xs ! i) = [concat (map render xs) ! i])"
    by (rule render_elements)
  then show "\<exists>ds. render (DashBoardLayout (p(''children'' \<mapsto> Array xs))) =
                [DElem ''div'' [] [DElem ''h1'' [] [DText ''Dashboard''], DElem ''div'' [] ds]]
              \<and> length ds = length xs
              \<and> (\<forall>i<length xs. render (xs ! i) = [ds ! i])"
    by (simp add: DashBoardLayout_display)
qed

theorem DashBoardLayout_siblings_witness:
  "render (DashBoardLayout
      [''children'' \<mapsto> Array [Element ''p'' [] [Text ''a''], Element ''span'' [] [Text ''b'']]]) =
     [DElem ''div'' []
        [DElem ''h1'' [] [DText ''Dashboard''],
         DElem ''div'' []
           [DElem ''p'' [] [DText ''a''], DElem ''span'' [] [DText ''b'']]]]
   \<and> list_all is_element [Element ''p'' [] [Text ''a''], Element ''span'' [] [Text ''b'']]
   \<and> (\<exists>ds. render (DashBoardLayout
          [''children'' \<mapsto> Array [Element ''p'' [] [Text ''a''], Element ''span'' [] [Text ''b'']]]) =
          [DElem ''div'' [] [DElem ''h1'' [] [DText ''Dashboard''], DElem ''div'' [] ds]]
        \<and> length ds = 2)"
proof -
  have els: "list_all is_element [Element ''p'' [] [Text ''a''], Element ''span'' [] [Text ''b'']]"
    by simp
  from DashBoardLayout_siblings
    [of Map.empty "[Element ''p'' [] [Text ''a''], Element ''span'' [] [Text ''b'']]"] els
  show ?thesis by simp
qed

subsection \<open>No input but the children\<close>

text \<open>
  Claim C9. The output depends on the props through the children value only: two
  props objects whose \<open>children\<close> fields read the same give the same output,
  whatever their other fields are.
\<close>

theorem DashBoardLayout_only_children:
  assumes "get_children p = get_children q"
  shows "DashBoardLayout p = DashBoardLayout q"
  using assms by (simp add: DashBoardLayout_tree)

theorem DashBoardLayout_only_children_witness:
  "get_children [''children'' \<mapsto> Text ''Hello'', ''className'' \<mapsto> Text ''wide'']
     = get_children [''children'' \<mapsto> Text ''Hello'', ''title'' \<mapsto> Null]
   \<and> DashBoardLayout [''children'' \<mapsto> Text ''Hello'', ''className'' \<mapsto> Text ''wide'']
     = DashBoardLayout [''children'' \<mapsto> Text ''Hello'', ''title'' \<mapsto> Null]"
proof -
  have same: "get_children [''children'' \<mapsto> Text ''Hello'', ''className'' \<mapsto> Text ''wide'']
     = get_children [''children'' \<mapsto> Text ''Hello'', ''title'' \<mapsto> Null]"
    by (simp add: get_children_def)
  from same DashBoardLayout_only_children [OF same] show ?thesis by blast
qed

subsection \<open>The fixed frame\<close>

text \<open>
  Claim C10. For every props object the outer container has exactly two children:
  first the \<open>h1\<close> element whose only child is the text "Dashboard", so that its
  text is "Dashboard" and nothing more, then one \<open>div\<close> element. The heading is
  the same for all props.
\<close>

theorem DashBoardLayout_fixed_frame:
  "(\<exists>c. element_children (DashBoardLayout p) =
           Some [Element ''h1'' [] [Text ''Dashboard''], c]
        \<and> element_tag c = Some ''div'')
   \<and> map_option length (element_children (DashBoardLayout p)) = Some 2
   \<and> heading_of (DashBoardLayout p) = Some (Element ''h1'' [] [Text ''Dashboard''])
   \<and> map_option (\<lambda>h. text_of (render h)) (heading_of (DashBoardLayout p)) = Some ''Dashboard''
   \<and> heading_of (DashBoardLayout p) = heading_of (DashBoardLayout q)"
  by (simp add: DashBoardLayout_tree text_of_def)

end
